theory Spec2Isabelle
  imports Complex_Main
begin

section \<open>Python values, exceptions and strings\<close>

text \<open>
  The values that reach the code: what \<open>request.get_json()\<close> can return and what can be
  assigned to a model attribute. A \<open>str\<close> is a \<^typ>\<open>string\<close>, one \<^typ>\<open>char\<close> for each
  code point below 256; a \<open>dict\<close> with \<open>str\<close> keys is an association list read with
  \<^const>\<open>map_of\<close>.
\<close>

datatype pyval =
    PyNone
  | PyBool bool
  | PyInt int
  | PyFloat real
  | PyStr string
  | PyList "pyval list"
  | PyDict "(string \<times> pyval) list"

datatype exn =
    ValueError string
  | TypeError
  | KeyError
  | AttributeError

text \<open>
  \<open>str.strip()\<close> removes leading and trailing whitespace. Below 256 the whitespace code
  points of Python are 9 to 13, 28 to 32, 133 and 160.
\<close>

definition isspace :: "char \<Rightarrow> bool" where
  "isspace c =
     (let n = (of_char c :: nat)
      in (9 \<le> n \<and> n \<le> 13) \<or> (28 \<le> n \<and> n \<le> 32) \<or> n = 133 \<or> n = 160)"

definition strip :: "string \<Rightarrow> string" where
  "strip s = rev (dropWhile isspace (rev (dropWhile isspace s)))"

text \<open>\<open>str(n)\<close> for an \<open>int\<close>: the decimal digits, with a minus sign below zero.\<close>

definition digit_char :: "nat \<Rightarrow> char" where
  "digit_char d = ''0123456789'' ! d"

fun str_nat :: "nat \<Rightarrow> string" where
  "str_nat n = (if n < 10 then [digit_char n] else str_nat (n div 10) @ [digit_char (n mod 10)])"

declare str_nat.simps [simp del]

definition str_int :: "int \<Rightarrow> string" where
  "str_int i = (if i < 0 then CHR ''-'' # str_nat (nat (- i)) else str_nat (nat i))"

section \<open>models/base.py\<close>

text \<open>
  \<open>BaseModel.validate_string_length(field_name, value, min_length=2, allow_none=False)\<close>.
  A \<open>raise ValueError(msg)\<close> is the result \<open>Inl (ValueError msg)\<close>.
\<close>

definition validate_string_length :: "string \<Rightarrow> pyval \<Rightarrow> int \<Rightarrow> bool \<Rightarrow> exn + pyval" where
  "validate_string_length field_name v min_length allow_none =
     (case v of
        PyNone \<Rightarrow>
          if allow_none then Inr v
          else Inl (ValueError (field_name @ '' cannot be empty''))
      | PyStr s \<Rightarrow>
          if int (length (strip s)) < min_length
          then Inl (ValueError (field_name @ '' must be at least '' @ str_int min_length @ '' characters''))
          else Inr v
      | _ \<Rightarrow> Inl (ValueError (field_name @ '' must be a string'')))"

definition is_str :: "pyval \<Rightarrow> bool" where
  "is_str v = (case v of PyStr s \<Rightarrow> True | _ \<Rightarrow> False)"

section \<open>The Game entity\<close>

text \<open>
  Modelled from the spec: the \<open>Game\<close> class is not under src/. Its columns are the ones
  the spec lists and the handlers read and write (\<open>id\<close>, \<open>title\<close>, \<open>description\<close>,
  \<open>star_rating\<close>, \<open>publisher_id\<close>, \<open>category_id\<close>), each holding the Python value that was
  assigned. An object that has not been flushed has no \<open>id\<close>.
\<close>

record game =
  game_id :: "int option"
  title :: pyval
  description :: pyval
  star_rating :: pyval
  publisher_id :: pyval
  category_id :: pyval

section \<open>models/category.py\<close>

text \<open>
  \<open>Category\<close>: the columns \<open>id\<close>, \<open>name\<close>, \<open>description\<close> and the relationship
  \<open>games\<close> (\<open>None\<close> when the attribute holds Python's \<open>None\<close>).
\<close>

record category =
  cat_id :: "int option"
  name :: pyval
  cat_description :: pyval
  games :: "game list option"

definition validate_name :: "category \<Rightarrow> string \<Rightarrow> pyval \<Rightarrow> exn + pyval" where
  "validate_name self key v = validate_string_length ''Category name'' v 2 False"

definition validate_description :: "category \<Rightarrow> string \<Rightarrow> pyval \<Rightarrow> exn + pyval" where
  "validate_description self key v = validate_string_length ''Description'' v 10 True"

text \<open>
  \<open>@validates('name')\<close> and \<open>@validates('description')\<close>: the validator runs inside the
  assignment \<open>self.name = v\<close>, and the attribute receives what the validator returns. When
  the validator raises, the attribute keeps its old value.
\<close>

definition set_name :: "category \<Rightarrow> pyval \<Rightarrow> exn + category" where
  "set_name self v =
     (case validate_name self ''name'' v of
        Inl e \<Rightarrow> Inl e
      | Inr v' \<Rightarrow> Inr (self\<lparr>name := v'\<rparr>))"

definition set_description :: "category \<Rightarrow> pyval \<Rightarrow> exn + category" where
  "set_description self v =
     (case validate_description self ''description'' v of
        Inl e \<Rightarrow> Inl e
      | Inr v' \<Rightarrow> Inr (self\<lparr>cat_description := v'\<rparr>))"

text \<open>
  \<open>Category(name=n)\<close> and \<open>Category(name=n, description=d)\<close>: the constructor assigns each
  keyword argument in turn, so the validators run. The second argument is \<open>None\<close> when the
  keyword \<open>description\<close> is left out. A new object has no id and an empty collection.
\<close>

definition new_category :: category where
  "new_category = \<lparr>cat_id = None, name = PyNone, cat_description = PyNone, games = Some []\<rparr>"

definition Category_init :: "pyval \<Rightarrow> pyval option \<Rightarrow> exn + category" where
  "Category_init n d =
     (case set_name new_category n of
        Inl e \<Rightarrow> Inl e
      | Inr c \<Rightarrow> (case d of None \<Rightarrow> Inr c | Some v \<Rightarrow> set_description c v))"

text \<open>\<open>len(self.games) if self.games else 0\<close>: \<open>None\<close> and the empty list are false.\<close>

definition game_count :: "category \<Rightarrow> int" where
  "game_count self =
     (case games self of
        None \<Rightarrow> 0
      | Some gs \<Rightarrow> if gs \<noteq> [] then int (length gs) else 0)"

definition py_of_id :: "int option \<Rightarrow> pyval" where
  "py_of_id i = (case i of None \<Rightarrow> PyNone | Some n \<Rightarrow> PyInt n)"

definition to_dict :: "category \<Rightarrow> pyval" where
  "to_dict self =
     PyDict [(''id'', py_of_id (cat_id self)),
             (''name'', name self),
             (''description'', cat_description self),
             (''game_count'', PyInt (game_count self))]"

section \<open>The persistence session\<close>

text \<open>
  Modelled from the spec: \<open>db.session\<close>, \<open>Model.query\<close> and the \<open>Publisher\<close> class are not
  under src/. The spec asks for a lookup by id that returns presence or absence and a
  session with \<open>add\<close>, \<open>delete\<close>, \<open>commit\<close>, \<open>rollback\<close> and queries. The session holds
  the rows as it sees them (uncommitted changes included), the rows as last committed, and
  the trace of the calls made on it. Constraint checks of a database engine are not
  modelled: \<open>commit\<close> does not fail.
\<close>

record publisher =
  pub_id :: "int option"

datatype db_op =
    Get_game int
  | Get_publisher pyval
  | Get_category pyval
  | Run_base_query
  | Add
  | Delete int
  | Commit
  | Rollback

record session =
  game_rows :: "game list"
  committed_rows :: "game list"
  publisher_rows :: "publisher list"
  category_rows :: "category list"
  trace :: "db_op list"

text \<open>
  A value identifies the row whose id it equals as a Python value (\<open>True == 1\<close>,
  \<open>1.0 == 1\<close>); \<open>None\<close>, strings, lists and dicts identify no row.
\<close>

definition pk_match :: "pyval \<Rightarrow> int option \<Rightarrow> bool" where
  "pk_match v pk =
     (case pk of
        None \<Rightarrow> False
      | Some i \<Rightarrow>
          (case v of
             PyInt j \<Rightarrow> j = i
           | PyBool b \<Rightarrow> (if b then 1 else 0) = i
           | PyFloat r \<Rightarrow> r = of_int i
           | _ \<Rightarrow> False))"

definition called :: "db_op \<Rightarrow> session \<Rightarrow> session" where
  "called op s = s\<lparr>trace := trace s @ [op]\<rparr>"

definition Game_query_get :: "int \<Rightarrow> session \<Rightarrow> game option \<times> session" where
  "Game_query_get i s = (find (\<lambda>g. game_id g = Some i) (game_rows s), called (Get_game i) s)"

definition Publisher_query_get :: "pyval \<Rightarrow> session \<Rightarrow> publisher option \<times> session" where
  "Publisher_query_get v s =
     (find (\<lambda>p. pk_match v (pub_id p)) (publisher_rows s), called (Get_publisher v) s)"

definition Category_query_get :: "pyval \<Rightarrow> session \<Rightarrow> category option \<times> session" where
  "Category_query_get v s =
     (find (\<lambda>c. pk_match v (cat_id c)) (category_rows s), called (Get_category v) s)"

definition max_id :: "game list \<Rightarrow> int" where
  "max_id gs = fold (\<lambda>g m. case game_id g of None \<Rightarrow> m | Some i \<Rightarrow> max i m) gs 0"

text \<open>
  \<open>db.session.add(obj)\<close>. The object is referred to by its primary key from then on, so
  the key the flush assigns (one above every key in use) is handed out here.
\<close>

definition session_add :: "game \<Rightarrow> session \<Rightarrow> int \<times> session" where
  "session_add g s =
     (let i = max_id (committed_rows s @ game_rows s) + 1
      in (i, called Add (s\<lparr>game_rows := game_rows s @ [g\<lparr>game_id := Some i\<rparr>]\<rparr>)))"

definition session_delete :: "int \<Rightarrow> session \<Rightarrow> session" where
  "session_delete i s =
     called (Delete i) (s\<lparr>game_rows := filter (\<lambda>g. game_id g \<noteq> Some i) (game_rows s)\<rparr>)"

definition session_commit :: "session \<Rightarrow> session" where
  "session_commit s = called Commit (s\<lparr>committed_rows := game_rows s\<rparr>)"

definition session_rollback :: "session \<Rightarrow> session" where
  "session_rollback s = called Rollback (s\<lparr>game_rows := committed_rows s\<rparr>)"

text \<open>
  Attribute assignment on the \<open>Game\<close> object with primary key \<open>i\<close>, which lives in the
  session. The validators of \<open>Game\<close> (not under src/) are a parameter \<open>V\<close>: \<open>V attr v\<close> is
  what is stored for the assignment of \<open>v\<close> to \<open>attr\<close>, or the exception the validator
  raises.
\<close>

definition store_attr :: "string \<Rightarrow> pyval \<Rightarrow> game \<Rightarrow> game" where
  "store_attr attr v g =
     (if attr = ''title'' then g\<lparr>title := v\<rparr>
      else if attr = ''description'' then g\<lparr>description := v\<rparr>
      else if attr = ''star_rating'' then g\<lparr>star_rating := v\<rparr>
      else if attr = ''publisher_id'' then g\<lparr>publisher_id := v\<rparr>
      else if attr = ''category_id'' then g\<lparr>category_id := v\<rparr>
      else g)"

definition Game_setattr ::
  "(string \<Rightarrow> pyval \<Rightarrow> exn + pyval) \<Rightarrow> int \<Rightarrow> string \<Rightarrow> pyval \<Rightarrow> session \<Rightarrow> exn + session" where
  "Game_setattr V i attr v s =
     (case V attr v of
        Inl e \<Rightarrow> Inl e
      | Inr v' \<Rightarrow>
          Inr (s\<lparr>game_rows :=
                   map (\<lambda>g. if game_id g = Some i then store_attr attr v' g else g) (game_rows s)\<rparr>))"

text \<open>
  \<open>Game(title=.., description=.., publisher_id=.., category_id=.., star_rating=..)\<close>: the
  keyword arguments are assigned in this order, each through its validator.
\<close>

definition new_game :: game where
  "new_game = \<lparr>game_id = None, title = PyNone, description = PyNone, star_rating = PyNone,
               publisher_id = PyNone, category_id = PyNone\<rparr>"

fun Game_init_from ::
  "(string \<Rightarrow> pyval \<Rightarrow> exn + pyval) \<Rightarrow> (string \<times> pyval) list \<Rightarrow> game \<Rightarrow> exn + game" where
  "Game_init_from V [] g = Inr g"
| "Game_init_from V ((attr, v) # kwargs) g =
     (case V attr v of
        Inl e \<Rightarrow> Inl e
      | Inr v' \<Rightarrow> Game_init_from V kwargs (store_attr attr v' g))"

definition Game_init ::
  "(string \<Rightarrow> pyval \<Rightarrow> exn + pyval) \<Rightarrow> pyval \<Rightarrow> pyval \<Rightarrow> pyval \<Rightarrow> pyval \<Rightarrow> pyval \<Rightarrow> exn + game" where
  "Game_init V t d p c r =
     Game_init_from V
       [(''title'', t), (''description'', d), (''publisher_id'', p), (''category_id'', c),
        (''star_rating'', r)] new_game"

section \<open>Python operations on the payload\<close>

text \<open>
  \<open>k in data\<close> for a \<open>str\<close> \<open>k\<close>: key membership in a dict, element membership in a list,
  substring test in a \<open>str\<close>, \<open>TypeError\<close> on \<open>None\<close>, a \<open>bool\<close> or a number.
\<close>

fun is_substring :: "string \<Rightarrow> string \<Rightarrow> bool" where
  "is_substring k [] = (k = [])"
| "is_substring k (c # cs) = (take (length k) (c # cs) = k \<or> is_substring k cs)"

definition py_in :: "string \<Rightarrow> pyval \<Rightarrow> exn + bool" where
  "py_in k data =
     (case data of
        PyDict kvs \<Rightarrow> Inr (map_of kvs k \<noteq> None)
      | PyList xs \<Rightarrow> Inr (PyStr k \<in> set xs)
      | PyStr s \<Rightarrow> Inr (is_substring k s)
      | _ \<Rightarrow> Inl TypeError)"

text \<open>\<open>data[k]\<close> for a \<open>str\<close> \<open>k\<close>: only a dict can be indexed by a \<open>str\<close>.\<close>

definition py_getitem :: "pyval \<Rightarrow> string \<Rightarrow> exn + pyval" where
  "py_getitem data k =
     (case data of
        PyDict kvs \<Rightarrow> (case map_of kvs k of None \<Rightarrow> Inl KeyError | Some v \<Rightarrow> Inr v)
      | _ \<Rightarrow> Inl TypeError)"

text \<open>\<open>data.get(k)\<close>: a method of dicts only.\<close>

definition py_get :: "pyval \<Rightarrow> string \<Rightarrow> exn + pyval" where
  "py_get data k =
     (case data of
        PyDict kvs \<Rightarrow> (case map_of kvs k of None \<Rightarrow> Inr PyNone | Some v \<Rightarrow> Inr v)
      | _ \<Rightarrow> Inl AttributeError)"

text \<open>\<open>data is None or (isinstance(data, dict) and len(data) == 0)\<close>\<close>

definition no_data :: "pyval \<Rightarrow> bool" where
  "no_data data =
     (case data of
        PyNone \<Rightarrow> True
      | PyDict kvs \<Rightarrow> length (remdups (map fst kvs)) = 0
      | _ \<Rightarrow> False)"

section \<open>routes/games.py\<close>

text \<open>
  A response is the JSON body and the status code. \<open>Game_json g\<close> stands for
  \<open>jsonify(g.to_dict())\<close> and \<open>Games_json gs\<close> for the list of them (\<open>Game.to_dict\<close> is not
  under src/); \<open>Error_json m\<close> is \<open>{"error": m}\<close> and \<open>Message_json m\<close> is \<open>{"message": m}\<close>.
\<close>

datatype body =
    Error_json string
  | Message_json string
  | Game_json game
  | Games_json "game list"

type_synonym response = "body \<times> nat"

text \<open>
  What \<open>request.get_json()\<close> does: it raises (no JSON body, or one that does not parse),
  or it returns the parsed value.
\<close>

datatype request_json = Raises | Parsed pyval

text \<open>
  A statement inside the \<open>try\<close> block raises, returns a response from the handler, or
  goes on to the next statement with a value. The session is threaded through.
\<close>

datatype 'a flow = Raise exn | Return response | Next 'a

type_synonym 'a stmt = "session \<Rightarrow> 'a flow \<times> session"

definition seq :: "'a stmt \<Rightarrow> ('a \<Rightarrow> 'b stmt) \<Rightarrow> 'b stmt" where
  "seq m k s =
     (case m s of
        (Next x, s') \<Rightarrow> k x s'
      | (Raise e, s') \<Rightarrow> (Raise e, s')
      | (Return r, s') \<Rightarrow> (Return r, s'))"

definition ret :: "response \<Rightarrow> 'a stmt" where
  "ret r s = (Return r, s)"

definition next_stmt :: "'a \<Rightarrow> 'a stmt" where
  "next_stmt x s = (Next x, s)"

definition eval :: "exn + 'a \<Rightarrow> 'a stmt" where
  "eval r s = (case r of Inl e \<Rightarrow> (Raise e, s) | Inr x \<Rightarrow> (Next x, s))"

definition query :: "(session \<Rightarrow> 'a \<times> session) \<Rightarrow> 'a stmt" where
  "query q s = (case q s of (x, s') \<Rightarrow> (Next x, s'))"

definition effect :: "(session \<Rightarrow> session) \<Rightarrow> unit stmt" where
  "effect f s = (Next (), f s)"

definition update :: "(session \<Rightarrow> exn + session) \<Rightarrow> unit stmt" where
  "update f s = (case f s of Inl e \<Rightarrow> (Raise e, s) | Inr s' \<Rightarrow> (Next (), s'))"

subsection \<open>The base query\<close>

definition left_outer_join :: "'a list \<Rightarrow> 'b list \<Rightarrow> ('a \<Rightarrow> 'b \<Rightarrow> bool) \<Rightarrow> ('a \<times> 'b option) list" where
  "left_outer_join ls rs on =
     concat (map (\<lambda>l. let ms = filter (on l) rs
                       in if ms = [] then [(l, None)] else map (\<lambda>r. (l, Some r)) ms) ls)"

text \<open>
  \<open>db.session.query(Game).join(Publisher, Game.publisher_id == Publisher.id, isouter=True)
  .join(Category, Game.category_id == Category.id, isouter=True)\<close>: the joined rows.
\<close>

definition get_games_base_query :: "session \<Rightarrow> ((game \<times> publisher option) \<times> category option) list" where
  "get_games_base_query s =
     left_outer_join
       (left_outer_join (game_rows s) (publisher_rows s)
          (\<lambda>g p. pk_match (publisher_id g) (pub_id p)))
       (category_rows s)
       (\<lambda>gp c. pk_match (category_id (fst gp)) (cat_id c))"

text \<open>
  The query selects the \<open>Game\<close> entity: \<open>.all()\<close> gives the \<open>Game\<close> of every joined row,
  \<open>.filter(Game.id == i).first()\<close> the \<open>Game\<close> of the first joined row with that id, or
  \<open>None\<close>.
\<close>

definition query_all :: "session \<Rightarrow> game list \<times> session" where
  "query_all s = (map (\<lambda>r. fst (fst r)) (get_games_base_query s), called Run_base_query s)"

definition query_filter_first :: "int \<Rightarrow> session \<Rightarrow> game option \<times> session" where
  "query_filter_first i s =
     (case filter (\<lambda>r. game_id (fst (fst r)) = Some i) (get_games_base_query s) of
        [] \<Rightarrow> (None, called Run_base_query s)
      | r # rs \<Rightarrow> (Some (fst (fst r)), called Run_base_query s))"

subsection \<open>GET /api/games and GET /api/games/<id>\<close>

definition get_games :: "session \<Rightarrow> response \<times> session" where
  "get_games s = (case query_all s of (gs, s') \<Rightarrow> ((Games_json gs, 200), s'))"

definition get_game :: "int \<Rightarrow> session \<Rightarrow> response \<times> session" where
  "get_game i s =
     (case query_filter_first i s of
        (None, s') \<Rightarrow> ((Error_json ''Game not found'', 404), s')
      | (Some g, s') \<Rightarrow> ((Game_json g, 200), s'))"

subsection \<open>The handlers with a \<open>try\<close> block\<close>

text \<open>
  \<open>except ValueError as e: rollback, 400 with str(e)\<close>;
  \<open>except Exception: rollback, 500\<close>. A \<open>return\<close> inside the \<open>try\<close> block leaves the
  handler without entering either clause.
\<close>

definition handle :: "response stmt \<Rightarrow> session \<Rightarrow> response \<times> session" where
  "handle block s =
     (case block s of
        (Return r, s') \<Rightarrow> (r, s')
      | (Next r, s') \<Rightarrow> (r, s')
      | (Raise (ValueError m), s') \<Rightarrow> ((Error_json m, 400), session_rollback s')
      | (Raise e, s') \<Rightarrow> ((Error_json ''Internal server error'', 500), session_rollback s'))"

text \<open>\<open>delete_game\<close> has the second clause only.\<close>

definition handle_any :: "response stmt \<Rightarrow> session \<Rightarrow> response \<times> session" where
  "handle_any block s =
     (case block s of
        (Return r, s') \<Rightarrow> (r, s')
      | (Next r, s') \<Rightarrow> (r, s')
      | (Raise e, s') \<Rightarrow> ((Error_json ''Internal server error'', 500), session_rollback s'))"

text \<open>
  \<open>try: data = request.get_json()  except Exception: return 400\<close>
\<close>

definition get_json :: "request_json \<Rightarrow> pyval stmt" where
  "get_json req =
     (case req of
        Raises \<Rightarrow> ret (Error_json ''No data provided'', 400)
      | Parsed data \<Rightarrow> next_stmt data)"

subsection \<open>POST /api/games\<close>

definition required_fields :: "string list" where
  "required_fields = [''title'', ''description'', ''publisher_id'', ''category_id'']"

text \<open>
  \<open>for field in required_fields:
       if field not in data or data[field] is None: return 400\<close>
\<close>

fun check_required :: "string list \<Rightarrow> pyval \<Rightarrow> unit stmt" where
  "check_required [] data = next_stmt ()"
| "check_required (field # rest) data =
     seq (eval (py_in field data)) (\<lambda>present.
       if \<not> present then ret (Error_json (''Missing required field: '' @ field), 400)
       else seq (eval (py_getitem data field)) (\<lambda>v.
         if v = PyNone then ret (Error_json (''Missing required field: '' @ field), 400)
         else check_required rest data))"

definition create_game_try :: "(string \<Rightarrow> pyval \<Rightarrow> exn + pyval) \<Rightarrow> request_json \<Rightarrow> response stmt" where
  "create_game_try V req =
     seq (get_json req) (\<lambda>data.
     if no_data data then ret (Error_json ''No data provided'', 400)
     else
     seq (check_required required_fields data) (\<lambda>_.
     seq (eval (py_getitem data ''publisher_id'')) (\<lambda>pid.
     seq (query (Publisher_query_get pid)) (\<lambda>publisher.
     if publisher = None then ret (Error_json ''Publisher not found'', 404)
     else
     seq (eval (py_getitem data ''category_id'')) (\<lambda>cid.
     seq (query (Category_query_get cid)) (\<lambda>category.
     if category = None then ret (Error_json ''Category not found'', 404)
     else
     seq (eval (py_getitem data ''title'')) (\<lambda>t.
     seq (eval (py_getitem data ''description'')) (\<lambda>d.
     seq (eval (py_getitem data ''publisher_id'')) (\<lambda>p.
     seq (eval (py_getitem data ''category_id'')) (\<lambda>c.
     seq (eval (py_get data ''star_rating'')) (\<lambda>r.
     seq (eval (Game_init V t d p c r)) (\<lambda>g.
     seq (query (session_add g)) (\<lambda>new_id.
     seq (effect session_commit) (\<lambda>_.
     seq (query (query_filter_first new_id)) (\<lambda>created_game.
       case created_game of
         None \<Rightarrow> eval (Inl AttributeError)
       | Some g' \<Rightarrow> ret (Game_json g', 201))))))))))))))))"

definition create_game :: "(string \<Rightarrow> pyval \<Rightarrow> exn + pyval) \<Rightarrow> request_json \<Rightarrow> session \<Rightarrow> response \<times> session" where
  "create_game V req = handle (create_game_try V req)"

subsection \<open>PUT /api/games/<id>\<close>

text \<open>\<open>if attr in data: game.attr = data[attr]\<close>\<close>

definition update_attr :: "(string \<Rightarrow> pyval \<Rightarrow> exn + pyval) \<Rightarrow> int \<Rightarrow> string \<Rightarrow> pyval \<Rightarrow> unit stmt" where
  "update_attr V i attr data =
     seq (eval (py_in attr data)) (\<lambda>present.
       if present
       then seq (eval (py_getitem data attr)) (\<lambda>v. update (Game_setattr V i attr v))
       else next_stmt ())"

text \<open>
  \<open>if 'publisher_id' in data:
       publisher = Publisher.query.get(data['publisher_id'])
       if not publisher: return 404
       game.publisher_id = data['publisher_id']\<close>
\<close>

definition update_publisher_id :: "(string \<Rightarrow> pyval \<Rightarrow> exn + pyval) \<Rightarrow> int \<Rightarrow> pyval \<Rightarrow> unit stmt" where
  "update_publisher_id V i data =
     seq (eval (py_in ''publisher_id'' data)) (\<lambda>present.
       if present
       then seq (eval (py_getitem data ''publisher_id'')) (\<lambda>pid.
            seq (query (Publisher_query_get pid)) (\<lambda>publisher.
              if publisher = None then ret (Error_json ''Publisher not found'', 404)
              else seq (eval (py_getitem data ''publisher_id'')) (\<lambda>v.
                   update (Game_setattr V i ''publisher_id'' v))))
       else next_stmt ())"

definition update_category_id :: "(string \<Rightarrow> pyval \<Rightarrow> exn + pyval) \<Rightarrow> int \<Rightarrow> pyval \<Rightarrow> unit stmt" where
  "update_category_id V i data =
     seq (eval (py_in ''category_id'' data)) (\<lambda>present.
       if present
       then seq (eval (py_getitem data ''category_id'')) (\<lambda>cid.
            seq (query (Category_query_get cid)) (\<lambda>category.
              if category = None then ret (Error_json ''Category not found'', 404)
              else seq (eval (py_getitem data ''category_id'')) (\<lambda>v.
                   update (Game_setattr V i ''category_id'' v))))
       else next_stmt ())"

definition update_game_try :: "(string \<Rightarrow> pyval \<Rightarrow> exn + pyval) \<Rightarrow> int \<Rightarrow> request_json \<Rightarrow> response stmt" where
  "update_game_try V i req =
     seq (query (Game_query_get i)) (\<lambda>game.
     if game = None then ret (Error_json ''Game not found'', 404)
     else
     seq (get_json req) (\<lambda>data.
     if no_data data then ret (Error_json ''No data provided'', 400)
     else
     seq (update_attr V i ''title'' data) (\<lambda>_.
     seq (update_attr V i ''description'' data) (\<lambda>_.
     seq (update_attr V i ''star_rating'' data) (\<lambda>_.
     seq (update_publisher_id V i data) (\<lambda>_.
     seq (update_category_id V i data) (\<lambda>_.
     seq (effect session_commit) (\<lambda>_.
     seq (query (query_filter_first i)) (\<lambda>updated_game.
       case updated_game of
         None \<Rightarrow> eval (Inl AttributeError)
       | Some g' \<Rightarrow> ret (Game_json g', 200))))))))))"

definition update_game :: "(string \<Rightarrow> pyval \<Rightarrow> exn + pyval) \<Rightarrow> int \<Rightarrow> request_json \<Rightarrow> session \<Rightarrow> response \<times> session" where
  "update_game V i req = handle (update_game_try V i req)"

subsection \<open>DELETE /api/games/<id>\<close>

definition delete_game_try :: "int \<Rightarrow> response stmt" where
  "delete_game_try i =
     seq (query (Game_query_get i)) (\<lambda>game.
     if game = None then ret (Error_json ''Game not found'', 404)
     else
     seq (effect (session_delete i)) (\<lambda>_.
     seq (effect session_commit) (\<lambda>_.
       ret (Message_json ''Game deleted successfully'', 200))))"

definition delete_game :: "int \<Rightarrow> session \<Rightarrow> response \<times> session" where
  "delete_game i = handle_any (delete_game_try i)"

section \<open>Example data\<close>

text \<open>A \<open>Game\<close> class without validators, and a session with one game and one publisher.\<close>

definition no_validators :: "string \<Rightarrow> pyval \<Rightarrow> exn + pyval" where
  "no_validators attr v = Inr v"

definition example_game :: game where
  "example_game =
     \<lparr>game_id = Some 1, title = PyStr ''Old title'', description = PyStr ''A long description'',
      star_rating = PyNone, publisher_id = PyInt 1, category_id = PyInt 7\<rparr>"

definition example_session :: session where
  "example_session =
     \<lparr>game_rows = [example_game], committed_rows = [example_game],
      publisher_rows = [\<lparr>pub_id = Some 1\<rparr>], category_rows = [], trace = []\<rparr>"

definition example_category :: category where
  "example_category =
     \<lparr>cat_id = Some 7, name = PyStr ''Strategy'', cat_description = PyNone, games = Some []\<rparr>"

section \<open>The string validator\<close>

lemma str_int_2: "str_int 2 = ''2''"
  by (simp add: str_int_def str_nat.simps digit_char_def)

lemma str_int_10: "str_int 10 = ''10''"
  by (simp add: str_int_def str_nat.simps digit_char_def)

lemma strip_all_space: "list_all isspace s \<Longrightarrow> strip s = []"
  by (auto simp: strip_def list_all_iff dest: set_dropWhileD)

text \<open>
  C2. For every field name, value, minimum length and \<open>allow_none\<close> flag: an absent value
  is returned unchanged when absence is allowed and fails with "<field> cannot be empty"
  when it is not; a present value that is not a string fails with "<field> must be a
  string"; a string whose trimmed length is below the minimum fails with "<field> must be
  at least <min> characters"; any other string is returned as it was given, untrimmed.
\<close>

theorem validate_string_length_cases:
  "validate_string_length f PyNone m True = Inr PyNone \<and>
   validate_string_length f PyNone m False = Inl (ValueError (f @ '' cannot be empty'')) \<and>
   (v \<noteq> PyNone \<and> \<not> is_str v \<longrightarrow>
      validate_string_length f v m a = Inl (ValueError (f @ '' must be a string''))) \<and>
   (int (length (strip s)) < m \<longrightarrow>
      validate_string_length f (PyStr s) m a =
        Inl (ValueError (f @ '' must be at least '' @ str_int m @ '' characters''))) \<and>
   (m \<le> int (length (strip s)) \<longrightarrow> validate_string_length f (PyStr s) m a = Inr (PyStr s))"
  by (cases v) (simp_all add: validate_string_length_def is_str_def)

theorem validate_string_length_cases_witness:
  "PyInt 5 \<noteq> PyNone \<and> \<not> is_str (PyInt 5) \<and>
   validate_string_length ''Name'' (PyInt 5) 2 False = Inl (ValueError ''Name must be a string'') \<and>
   int (length (strip '' a '')) < 2 \<and>
   validate_string_length ''Name'' (PyStr '' a '') 2 False =
     Inl (ValueError ''Name must be at least 2 characters'') \<and>
   2 \<le> int (length (strip '' ab '')) \<and>
   validate_string_length ''Name'' (PyStr '' ab '') 2 False = Inr (PyStr '' ab '')"
  using validate_string_length_cases [where f = "''Name''" and m = 2 and v = "PyInt 5" and s = "'' a ''" and a = False]
        validate_string_length_cases [where f = "''Name''" and m = 2 and v = "PyInt 5" and s = "'' ab ''" and a = False]
  by (simp add: is_str_def strip_def isspace_def str_int_2)

section \<open>Category\<close>

text \<open>
  C6. Validation runs inside the assignment to a field of a \<open>Category\<close>. Assigning
  \<open>name\<close> goes through the string validator with minimum 2 and absence not allowed: \<open>None\<close>,
  a value that is not a string, and a string with fewer than 2 characters after trimming
  (an all-whitespace one among them) each raise with the validator's message, and the
  assignment stores nothing. Assigning \<open>description\<close> goes through it with minimum 10 and
  absence allowed: \<open>None\<close> is stored, a value that is not a string raises the type message,
  a string with fewer than 10 trimmed characters raises the length message. The assignment
  is a function of the object and the value alone: no session takes part in it.
\<close>

theorem category_assignment_validates:
  "validate_name c k v = validate_string_length ''Category name'' v 2 False \<and>
   validate_description c k v = validate_string_length ''Description'' v 10 True \<and>
   set_name c PyNone = Inl (ValueError ''Category name cannot be empty'') \<and>
   (v \<noteq> PyNone \<and> \<not> is_str v \<longrightarrow>
      set_name c v = Inl (ValueError ''Category name must be a string'')) \<and>
   (length (strip s) < 2 \<longrightarrow>
      set_name c (PyStr s) = Inl (ValueError ''Category name must be at least 2 characters'')) \<and>
   (list_all isspace s \<longrightarrow>
      set_name c (PyStr s) = Inl (ValueError ''Category name must be at least 2 characters'')) \<and>
   (2 \<le> length (strip s) \<longrightarrow> set_name c (PyStr s) = Inr (c\<lparr>name := PyStr s\<rparr>)) \<and>
   set_description c PyNone = Inr (c\<lparr>cat_description := PyNone\<rparr>) \<and>
   (v \<noteq> PyNone \<and> \<not> is_str v \<longrightarrow>
      set_description c v = Inl (ValueError ''Description must be a string'')) \<and>
   (length (strip s) < 10 \<longrightarrow>
      set_description c (PyStr s) = Inl (ValueError ''Description must be at least 10 characters'')) \<and>
   (10 \<le> length (strip s) \<longrightarrow>
      set_description c (PyStr s) = Inr (c\<lparr>cat_description := PyStr s\<rparr>))"
proof -
  have other: "v \<noteq> PyNone \<Longrightarrow> \<not> is_str v \<Longrightarrow>
      validate_string_length f v m a = Inl (ValueError (f @ '' must be a string''))" for f m a
    by (cases v) (simp_all add: validate_string_length_def is_str_def)
  show ?thesis
    by (simp add: validate_name_def validate_description_def set_name_def set_description_def
        other)
      (auto simp: validate_string_length_def str_int_2 str_int_10 strip_all_space)
qed

theorem category_assignment_validates_witness:
  "PyInt 7 \<noteq> PyNone \<and> \<not> is_str (PyInt 7) \<and>
   set_name new_category (PyInt 7) = Inl (ValueError ''Category name must be a string'') \<and>
   set_description new_category (PyInt 7) = Inl (ValueError ''Description must be a string'') \<and>
   length (strip '' x '') < 2 \<and> length (strip '' x '') < 10 \<and>
   set_name new_category (PyStr '' x '') =
     Inl (ValueError ''Category name must be at least 2 characters'') \<and>
   set_description new_category (PyStr '' x '') =
     Inl (ValueError ''Description must be at least 10 characters'') \<and>
   list_all isspace ''   '' \<and>
   set_name new_category (PyStr ''   '') =
     Inl (ValueError ''Category name must be at least 2 characters'') \<and>
   2 \<le> length (strip '' Strategy games '') \<and> 10 \<le> length (strip '' Strategy games '') \<and>
   set_name new_category (PyStr '' Strategy games '') =
     Inr (new_category\<lparr>name := PyStr '' Strategy games ''\<rparr>) \<and>
   set_description new_category (PyStr '' Strategy games '') =
     Inr (new_category\<lparr>cat_description := PyStr '' Strategy games ''\<rparr>)"
  using category_assignment_validates [where c = new_category and v = "PyInt 7" and s = "'' x ''"]
        category_assignment_validates [where c = new_category and v = "PyInt 7" and s = "''   ''"]
        category_assignment_validates [where c = new_category and v = "PyInt 7" and s = "'' Strategy games ''"]
  by (simp add: is_str_def strip_def isspace_def)

text \<open>
  C9. \<open>to_dict()\<close> of a \<open>Category\<close> is the dictionary with exactly the keys \<open>id\<close>, \<open>name\<close>,
  \<open>description\<close> and \<open>game_count\<close>, where \<open>game_count\<close> is the size of the collection
  \<open>games\<close>, and 0 when the collection is empty or \<open>None\<close>. For a name with at least 2
  trimmed characters and a description that is left out, \<open>None\<close>, or a string with at least
  10 trimmed characters, the construction succeeds, and \<open>to_dict()\<close> of the new object has
  \<open>game_count\<close> 0.
\<close>

theorem category_to_dict:
  "to_dict c =
     PyDict [(''id'', py_of_id (cat_id c)), (''name'', name c),
             (''description'', cat_description c),
             (''game_count'', PyInt (case games c of None \<Rightarrow> 0 | Some gs \<Rightarrow> int (length gs)))] \<and>
   (2 \<le> length (strip n) \<and>
    (d = None \<or> d = Some PyNone \<or> (\<exists>t. d = Some (PyStr t) \<and> 10 \<le> length (strip t))) \<longrightarrow>
      Category_init (PyStr n) d =
        Inr (new_category\<lparr>name := PyStr n,
                           cat_description := (case d of None \<Rightarrow> PyNone | Some v \<Rightarrow> v)\<rparr>) \<and>
      (\<exists>c'. Category_init (PyStr n) d = Inr c' \<and>
            py_getitem (to_dict c') ''game_count'' = Inr (PyInt 0)))"
  by (auto simp: to_dict_def game_count_def Category_init_def set_name_def set_description_def
      validate_name_def validate_description_def validate_string_length_def new_category_def
      py_getitem_def split: option.splits)

theorem category_to_dict_witness:
  "2 \<le> length (strip ''RPG'') \<and> 10 \<le> length (strip ''Role playing games'') \<and>
   Category_init (PyStr ''RPG'') (Some (PyStr ''Role playing games'')) =
     Inr \<lparr>cat_id = None, name = PyStr ''RPG'', cat_description = PyStr ''Role playing games'',
          games = Some []\<rparr> \<and>
   to_dict \<lparr>cat_id = None, name = PyStr ''RPG'', cat_description = PyStr ''Role playing games'',
            games = Some []\<rparr> =
     PyDict [(''id'', PyNone), (''name'', PyStr ''RPG''),
             (''description'', PyStr ''Role playing games''), (''game_count'', PyInt 0)]"
  using category_to_dict [where n = "''RPG''" and d = "Some (PyStr ''Role playing games'')"
      and c = "\<lparr>cat_id = None, name = PyStr ''RPG'', cat_description = PyStr ''Role playing games'',
          games = Some []\<rparr>"]
  by (simp add: strip_def isspace_def new_category_def py_of_id_def)

section \<open>The base query\<close>

lemma left_outer_join_Nil [simp]: "left_outer_join [] rs on = []"
  by (simp add: left_outer_join_def)

lemma left_outer_join_step:
  "left_outer_join (l # ls) rs on =
     (if filter (on l) rs = [] then [(l, None)] else map (\<lambda>r. (l, Some r)) (filter (on l) rs))
     @ left_outer_join ls rs on"
  by (simp add: left_outer_join_def Let_def)

lemma left_outer_join_Cons:
  "\<exists>x rest. left_outer_join (l # ls) rs on = (l, x) # rest"
  by (cases "filter (on l) rs") (auto simp: left_outer_join_def Let_def)

lemma filter_left_outer_join:
  "filter (\<lambda>r. P (fst r)) (left_outer_join ls rs on) = left_outer_join (filter P ls) rs on"
  by (induction ls) (auto simp: left_outer_join_def Let_def filter_empty_conv)

lemma set_fst_left_outer_join: "fst ` set (left_outer_join ls rs on) = set ls"
proof (induction ls)
  case Nil
  show ?case by simp
next
  case (Cons l ls)
  have "fst ` set (if filter (on l) rs = [] then [(l, None)]
          else map (\<lambda>r. (l, Some r)) (filter (on l) rs)) = {l}"
    by (cases "filter (on l) rs") (auto simp: image_image)
  with Cons show ?case
    by (simp only: left_outer_join_step set_append image_Un) simp
qed

lemma set_left_outer_join:
  "(l, x) \<in> set (left_outer_join ls rs on) \<longleftrightarrow>
     l \<in> set ls \<and>
     (case x of None \<Rightarrow> filter (on l) rs = [] | Some r \<Rightarrow> r \<in> set rs \<and> on l r)"
  by (induction ls) (auto simp: left_outer_join_step filter_empty_conv split: option.splits)

lemma find_by_filter: "find P xs = (case filter P xs of [] \<Rightarrow> None | x # ys \<Rightarrow> Some x)"
  by (induction xs) auto

lemma base_query_called [simp]:
  "get_games_base_query (called op s) = get_games_base_query s"
  by (simp add: get_games_base_query_def called_def)

lemma query_filter_first_eq:
  "query_filter_first i s = (find (\<lambda>g. game_id g = Some i) (game_rows s), called Run_base_query s)"
proof -
  let ?P = "\<lambda>g. game_id g = Some i"
  have eq: "filter (\<lambda>r. game_id (fst (fst r)) = Some i) (get_games_base_query s) =
      left_outer_join
        (left_outer_join (filter ?P (game_rows s)) (publisher_rows s)
           (\<lambda>g p. pk_match (publisher_id g) (pub_id p)))
        (category_rows s) (\<lambda>gp c. pk_match (category_id (fst gp)) (cat_id c))"
    unfolding get_games_base_query_def
    by (simp only: filter_left_outer_join [where P = "\<lambda>gp. game_id (fst gp) = Some i"]
        filter_left_outer_join [where P = "\<lambda>g. game_id g = Some i"])
  show ?thesis
  proof (cases "filter ?P (game_rows s)")
    case Nil
    then show ?thesis
      by (simp add: query_filter_first_def eq find_by_filter)
  next
    case (Cons g gs)
    obtain x rest where 1: "left_outer_join (g # gs) (publisher_rows s)
           (\<lambda>g p. pk_match (publisher_id g) (pub_id p)) = (g, x) # rest"
      using left_outer_join_Cons [where l = g and ls = gs and rs = "publisher_rows s"
          and on = "\<lambda>g p. pk_match (publisher_id g) (pub_id p)"] by blast
    obtain y rest' where 2: "left_outer_join ((g, x) # rest) (category_rows s)
        (\<lambda>gp c. pk_match (category_id (fst gp)) (cat_id c)) = ((g, x), y) # rest'"
      using left_outer_join_Cons [where l = "(g, x)" and ls = rest and rs = "category_rows s"
          and on = "\<lambda>gp c. pk_match (category_id (fst gp)) (cat_id c)"] by blast
    show ?thesis
      by (simp add: query_filter_first_def eq find_by_filter Cons 1 2)
  qed
qed

lemma first_joined_row:
  assumes "find (\<lambda>g. game_id g = Some i) (game_rows s) = Some g"
  shows "\<exists>r rs. filter (\<lambda>r. game_id (fst (fst r)) = Some i) (get_games_base_query s) = r # rs \<and>
           fst (fst r) = g"
  using assms query_filter_first_eq [of i s]
  by (auto simp: query_filter_first_def split: list.splits)

lemma set_query_all: "set (fst (query_all s)) = set (game_rows s)"
proof -
  have "set (fst (query_all s)) = fst ` fst ` set (get_games_base_query s)"
    by (simp add: query_all_def image_image)
  also have "\<dots> = set (game_rows s)"
    by (simp add: get_games_base_query_def set_fst_left_outer_join)
  finally show ?thesis .
qed

section \<open>The handlers\<close>

lemmas stmt_defs = seq_def ret_def next_stmt_def eval_def query_def effect_def update_def get_json_def

lemmas step_defs = ret_def next_stmt_def eval_def query_def effect_def update_def get_json_def

lemma no_data_iff: "no_data data = (data = PyNone \<or> data = PyDict [])"
  by (cases data) (simp_all add: no_data_def)

lemma seqE:
  assumes "seq m k s = (out, s')"
  obtains (returned) r where "m s = (Return r, s')" and "out = Return r"
    | (raised) e where "m s = (Raise e, s')" and "out = Raise e"
    | (went_on) x s1 where "m s = (Next x, s1)" and "k x s1 = (out, s')"
  using assms by (auto simp: seq_def split: prod.splits flow.splits)

lemma update_attr_result:
  "update_attr V i a data s = (out, s') \<Longrightarrow> (\<exists>e. out = Raise e) \<or> out = Next ()"
  by (auto simp: update_attr_def stmt_defs split: sum.splits if_splits)

lemma update_publisher_id_result:
  "update_publisher_id V i data s = (out, s') \<Longrightarrow>
     (\<exists>e. out = Raise e) \<or> out = Next () \<or> out = Return (Error_json ''Publisher not found'', 404)"
  by (auto simp: update_publisher_id_def stmt_defs Publisher_query_get_def
      split: sum.splits if_splits)

lemma update_category_id_result:
  "update_category_id V i data s = (out, s') \<Longrightarrow>
     (\<exists>e. out = Raise e) \<or> out = Next () \<or> out = Return (Error_json ''Category not found'', 404)"
  by (auto simp: update_category_id_def stmt_defs Category_query_get_def
      split: sum.splits if_splits)

lemma check_required_result:
  "check_required fs data s = (out, s') \<Longrightarrow>
     (\<exists>e. out = Raise e) \<or> out = Next () \<or> (\<exists>m. out = Return (Error_json m, 400))"
  by (induction fs) (auto simp: stmt_defs split: sum.splits if_splits)

lemma update_game_try_result:
  assumes "update_game_try V i req s = (out, s')"
  shows "(\<exists>e. out = Raise e) \<or> (\<exists>m st. out = Return (Error_json m, st)) \<or>
         (\<exists>g. out = Return (Game_json g, 200) \<and>
            find (\<lambda>g. game_id g = Some i) (game_rows s') = Some g \<and>
            last (trace s') = Run_base_query)"
  using assms unfolding update_game_try_def
  by (auto elim!: seqE simp: step_defs Game_query_get_def query_filter_first_eq called_def
      split: if_splits request_json.splits option.splits
      dest!: update_attr_result update_publisher_id_result update_category_id_result)

lemma create_game_try_result:
  assumes "create_game_try V req s = (out, s')"
  shows "(\<exists>e. out = Raise e) \<or> (\<exists>m st. out = Return (Error_json m, st)) \<or>
         (\<exists>g j. out = Return (Game_json g, 201) \<and>
            find (\<lambda>g. game_id g = Some j) (game_rows s') = Some g \<and>
            last (trace s') = Run_base_query)"
  using assms unfolding create_game_try_def
  by (auto elim!: seqE simp: step_defs query_filter_first_eq called_def
      Publisher_query_get_def Category_query_get_def session_add_def Let_def
      split: if_splits request_json.splits option.splits sum.splits
      dest!: check_required_result)

lemma handle_Game_json:
  assumes "fst (handle block s) = (Game_json g, st)"
  shows "\<exists>r. (block s = (Return r, snd (handle block s)) \<or> block s = (Next r, snd (handle block s))) \<and>
           r = (Game_json g, st)"
  using assms
  by (auto simp: handle_def split: prod.splits flow.splits exn.splits)

lemma update_game_response:
  assumes "fst (update_game V i req s) = (Game_json g, st)"
  shows "st = 200 \<and> last (trace (snd (update_game V i req s))) = Run_base_query \<and>
         find (\<lambda>g. game_id g = Some i) (game_rows (snd (update_game V i req s))) = Some g"
  using handle_Game_json [OF assms [unfolded update_game_def]]
    update_game_try_result [of V i req s _ "snd (update_game V i req s)"]
  by (auto simp: update_game_def)

lemma create_game_response:
  assumes "fst (create_game V req s) = (Game_json g, st)"
  shows "st = 201 \<and> last (trace (snd (create_game V req s))) = Run_base_query \<and>
         (\<exists>j. find (\<lambda>g. game_id g = Some j) (game_rows (snd (create_game V req s))) = Some g)"
  using handle_Game_json [OF assms [unfolded create_game_def]]
    create_game_try_result [of V req s _ "snd (create_game V req s)"]
  by (auto simp: create_game_def)

subsection \<open>Empty payloads\<close>

text \<open>
  C3. A create request, and an update request for a game that exists, whose payload is
  absent (\<open>get_json\<close> raises or returns \<open>None\<close>) or the empty JSON object is answered
  with 400 and the error "No data provided". The create handler has not called the session
  at all; the update handler has only looked the game up by id. No row is changed and
  nothing is committed: an empty object on PUT is not a successful update of zero fields.
\<close>

theorem empty_payload_rejected:
  assumes "req = Raises \<or> req = Parsed PyNone \<or> req = Parsed (PyDict [])"
  shows "create_game V req s = ((Error_json ''No data provided'', 400), s) \<and>
         (find (\<lambda>g. game_id g = Some i) (game_rows s) \<noteq> None \<longrightarrow>
            update_game V i req s =
              ((Error_json ''No data provided'', 400), called (Get_game i) s))"
  using assms
  by (auto simp: create_game_def update_game_def handle_def create_game_try_def
      update_game_try_def stmt_defs no_data_def Game_query_get_def)

theorem empty_payload_rejected_witness:
  "create_game no_validators Raises example_session =
     ((Error_json ''No data provided'', 400), example_session) \<and>
   create_game no_validators (Parsed PyNone) example_session =
     ((Error_json ''No data provided'', 400), example_session) \<and>
   create_game no_validators (Parsed (PyDict [])) example_session =
     ((Error_json ''No data provided'', 400), example_session) \<and>
   find (\<lambda>g. game_id g = Some 1) (game_rows example_session) = Some example_game \<and>
   update_game no_validators 1 (Parsed (PyDict [])) example_session =
     ((Error_json ''No data provided'', 400), called (Get_game 1) example_session)"
  using empty_payload_rejected [where req = Raises and V = no_validators
      and s = example_session and i = 1]
    empty_payload_rejected [where req = "Parsed PyNone" and V = no_validators
      and s = example_session and i = 1]
    empty_payload_rejected [where req = "Parsed (PyDict [])" and V = no_validators
      and s = example_session and i = 1]
  by (simp add: example_session_def example_game_def)

text \<open>
  C10. The empty-payload test rejects exactly \<open>None\<close> and the empty dict. An update
  request for an existing game whose payload is the empty array passes it: no field test
  succeeds, nothing is assigned, the session is committed, and the answer is 200 with the
  game as it was.
\<close>

theorem update_game_empty_array:
  "no_data data = (data = PyNone \<or> data = PyDict []) \<and>
   (find (\<lambda>g. game_id g = Some i) (game_rows s) = Some g \<longrightarrow>
      update_game V i (Parsed (PyList [])) s =
        ((Game_json g, 200),
         s\<lparr>committed_rows := game_rows s,
           trace := trace s @ [Get_game i, Commit, Run_base_query]\<rparr>))"
  by (auto simp: no_data_iff update_game_def handle_def update_game_try_def stmt_defs
      no_data_def Game_query_get_def update_attr_def update_publisher_id_def
      update_category_id_def py_in_def session_commit_def called_def
      query_filter_first_eq)

theorem update_game_empty_array_witness:
  "find (\<lambda>g. game_id g = Some 1) (game_rows example_session) = Some example_game \<and>
   update_game no_validators 1 (Parsed (PyList [])) example_session =
     ((Game_json example_game, 200),
      example_session\<lparr>trace := [Get_game 1, Commit, Run_base_query]\<rparr>)"
  using update_game_empty_array [where i = 1 and s = example_session and g = example_game
      and V = no_validators]
  by (simp add: example_session_def example_game_def)

subsection \<open>Create\<close>

text \<open>
  C4, as amended. For a create payload that is a JSON object with at least one key, in
  which one of \<open>title\<close>, \<open>description\<close>, \<open>publisher_id\<close>, \<open>category_id\<close> is missing or
  null, the handler answers 400 with "Missing required field: <name>", where <name> is the
  first such field in that order. No later field is reported, and the session is returned
  as it was: no lookup of a publisher or category and no write.
\<close>

theorem create_game_first_missing_field:
  assumes "kvs \<noteq> []"
    and "find (\<lambda>f. map_of kvs f = None \<or> map_of kvs f = Some PyNone)
           [''title'', ''description'', ''publisher_id'', ''category_id''] = Some f"
  shows "create_game V (Parsed (PyDict kvs)) s =
           ((Error_json (''Missing required field: '' @ f), 400), s)"
  using assms
  by (auto simp: create_game_def handle_def create_game_try_def stmt_defs no_data_def
      required_fields_def py_in_def py_getitem_def split: if_splits)

theorem create_game_first_missing_field_witness:
  "[(''title'', PyStr ''X''), (''description'', PyNone), (''star_rating'', PyInt 5)] \<noteq> [] \<and>
   find (\<lambda>f. map_of [(''title'', PyStr ''X''), (''description'', PyNone), (''star_rating'', PyInt 5)] f = None \<or>
             map_of [(''title'', PyStr ''X''), (''description'', PyNone), (''star_rating'', PyInt 5)] f = Some PyNone)
     [''title'', ''description'', ''publisher_id'', ''category_id''] = Some ''description'' \<and>
   create_game no_validators
     (Parsed (PyDict [(''title'', PyStr ''X''), (''description'', PyNone), (''star_rating'', PyInt 5)]))
     example_session =
   ((Error_json ''Missing required field: description'', 400), example_session)"
  using create_game_first_missing_field
    [where kvs = "[(''title'', PyStr ''X''), (''description'', PyNone), (''star_rating'', PyInt 5)]"
       and f = "''description''" and V = no_validators and s = example_session]
  by simp

text \<open>
  C4 as stated fails for payloads that are not such an object. In the empty object all
  four fields are missing, and the answer is "No data provided"; for the number 5 the test
  \<open>field not in data\<close> raises \<open>TypeError\<close>, and the answer is 500.
\<close>

theorem create_game_empty_object_counterexample:
  "create_game no_validators (Parsed (PyDict [])) example_session =
     ((Error_json ''No data provided'', 400), example_session) \<and>
   fst (create_game no_validators (Parsed (PyInt 5)) example_session) =
     (Error_json ''Internal server error'', 500)"
  by (simp add: create_game_def handle_def create_game_try_def stmt_defs no_data_def
      required_fields_def py_in_def)

text \<open>
  C5. For a create payload with all four required fields present and not null: when
  \<open>publisher_id\<close> matches no publisher the answer is 404 "Publisher not found", whatever
  \<open>category_id\<close> is, so the publisher's error wins when both references are invalid; when
  the publisher exists and \<open>category_id\<close> matches no category the answer is 404 "Category
  not found". In both cases the session has only been asked the lookups: its rows, pending
  and committed, are those of before.
\<close>

theorem create_game_reference_checks:
  assumes "map_of kvs ''title'' = Some t" and "t \<noteq> PyNone"
    and "map_of kvs ''description'' = Some d" and "d \<noteq> PyNone"
    and "map_of kvs ''publisher_id'' = Some p" and "p \<noteq> PyNone"
    and "map_of kvs ''category_id'' = Some c" and "c \<noteq> PyNone"
  shows "(find (\<lambda>r. pk_match p (pub_id r)) (publisher_rows s) = None \<longrightarrow>
            create_game V (Parsed (PyDict kvs)) s =
              ((Error_json ''Publisher not found'', 404), called (Get_publisher p) s)) \<and>
         (find (\<lambda>r. pk_match p (pub_id r)) (publisher_rows s) \<noteq> None \<and>
          find (\<lambda>r. pk_match c (cat_id r)) (category_rows s) = None \<longrightarrow>
            create_game V (Parsed (PyDict kvs)) s =
              ((Error_json ''Category not found'', 404),
               called (Get_category c) (called (Get_publisher p) s)))"
proof -
  have "kvs \<noteq> []" using assms(1) by auto
  then have nd: "\<not> no_data (PyDict kvs)" by (simp add: no_data_def)
  have req: "check_required required_fields (PyDict kvs) s = (Next (), s)"
    using assms by (simp add: required_fields_def stmt_defs py_in_def py_getitem_def)
  show ?thesis
    using assms nd req
    by (auto simp: create_game_def handle_def create_game_try_def stmt_defs
       py_getitem_def Publisher_query_get_def Category_query_get_def called_def)
qed

theorem create_game_reference_checks_witness:
  "find (\<lambda>r. pk_match (PyInt 999) (pub_id r)) (publisher_rows example_session) = None \<and>
   create_game no_validators
     (Parsed (PyDict [(''title'', PyStr ''X''), (''description'', PyStr ''YYYYYYYYYY''),
                      (''publisher_id'', PyInt 999), (''category_id'', PyInt 7)]))
     example_session =
   ((Error_json ''Publisher not found'', 404), called (Get_publisher (PyInt 999)) example_session) \<and>
   find (\<lambda>r. pk_match (PyInt 1) (pub_id r)) (publisher_rows example_session) = Some \<lparr>pub_id = Some 1\<rparr> \<and>
   find (\<lambda>r. pk_match (PyInt 7) (cat_id r)) (category_rows example_session) = None \<and>
   create_game no_validators
     (Parsed (PyDict [(''title'', PyStr ''X''), (''description'', PyStr ''YYYYYYYYYY''),
                      (''publisher_id'', PyInt 1), (''category_id'', PyInt 7)]))
     example_session =
   ((Error_json ''Category not found'', 404),
    called (Get_category (PyInt 7)) (called (Get_publisher (PyInt 1)) example_session))"
  using create_game_reference_checks
    [where kvs = "[(''title'', PyStr ''X''), (''description'', PyStr ''YYYYYYYYYY''),
                   (''publisher_id'', PyInt 999), (''category_id'', PyInt 7)]"
       and t = "PyStr ''X''" and d = "PyStr ''YYYYYYYYYY''" and p = "PyInt 999" and c = "PyInt 7"
       and V = no_validators and s = example_session]
    create_game_reference_checks
    [where kvs = "[(''title'', PyStr ''X''), (''description'', PyStr ''YYYYYYYYYY''),
                   (''publisher_id'', PyInt 1), (''category_id'', PyInt 7)]"
       and t = "PyStr ''X''" and d = "PyStr ''YYYYYYYYYY''" and p = "PyInt 1" and c = "PyInt 7"
       and V = no_validators and s = example_session]
  by (simp add: example_session_def pk_match_def)

subsection \<open>Delete\<close>

text \<open>
  C8. A delete request for an id that no game has is answered with 404 "Game not found",
  and the table is unchanged. For an id that a game has, the handler deletes the row,
  commits, and answers 200 with the message "Game deleted successfully"; a get by that id
  on the resulting session is answered with 404.
\<close>

theorem delete_game_spec:
  "(find (\<lambda>g. game_id g = Some i) (game_rows s) = None \<longrightarrow>
      delete_game i s = ((Error_json ''Game not found'', 404), called (Get_game i) s) \<and>
      game_rows (snd (delete_game i s)) = game_rows s \<and>
      committed_rows (snd (delete_game i s)) = committed_rows s) \<and>
   (find (\<lambda>g. game_id g = Some i) (game_rows s) \<noteq> None \<longrightarrow>
      fst (delete_game i s) = (Message_json ''Game deleted successfully'', 200) \<and>
      game_rows (snd (delete_game i s)) = filter (\<lambda>g. game_id g \<noteq> Some i) (game_rows s) \<and>
      committed_rows (snd (delete_game i s)) = game_rows (snd (delete_game i s)) \<and>
      trace (snd (delete_game i s)) = trace s @ [Get_game i, Delete i, Commit] \<and>
      fst (get_game i (snd (delete_game i s))) = (Error_json ''Game not found'', 404))"
  by (auto simp: delete_game_def handle_any_def delete_game_try_def stmt_defs
      Game_query_get_def session_delete_def session_commit_def called_def get_game_def
      query_filter_first_eq find_by_filter split: list.splits)

theorem delete_game_spec_witness:
  "find (\<lambda>g. game_id g = Some 2) (game_rows example_session) = None \<and>
   delete_game 2 example_session =
     ((Error_json ''Game not found'', 404), called (Get_game 2) example_session) \<and>
   find (\<lambda>g. game_id g = Some 1) (game_rows example_session) = Some example_game \<and>
   fst (delete_game 1 example_session) = (Message_json ''Game deleted successfully'', 200) \<and>
   game_rows (snd (delete_game 1 example_session)) = [] \<and>
   committed_rows (snd (delete_game 1 example_session)) = [] \<and>
   fst (get_game 1 (snd (delete_game 1 example_session))) = (Error_json ''Game not found'', 404)"
  using delete_game_spec [where i = 2 and s = example_session]
    delete_game_spec [where i = 1 and s = example_session]
  by (simp add: example_session_def example_game_def)

subsection \<open>Update and the pending title\<close>

text \<open>
  C1. An update of game 1 with a new title and a \<open>publisher_id\<close> that matches no publisher
  is answered with 404 "Publisher not found". The handler returns from inside the \<open>try\<close>
  block: the trace holds the two lookups and no rollback, and the session still holds the
  new title as an uncommitted change to the row, next to the committed old title.
\<close>

theorem update_game_unknown_publisher_keeps_pending_title:
  "update_game no_validators 1
     (Parsed (PyDict [(''title'', PyStr ''New title''), (''publisher_id'', PyInt 999)]))
     example_session =
   ((Error_json ''Publisher not found'', 404),
    \<lparr>game_rows = [example_game\<lparr>title := PyStr ''New title''\<rparr>],
     committed_rows = [example_game],
     publisher_rows = [\<lparr>pub_id = Some 1\<rparr>], category_rows = [],
     trace = [Get_game 1, Get_publisher (PyInt 999)]\<rparr>)"
  by (simp add: update_game_def handle_def update_game_try_def stmt_defs
      no_data_def Game_query_get_def update_attr_def update_publisher_id_def
      py_in_def py_getitem_def Game_setattr_def store_attr_def no_validators_def
      Publisher_query_get_def pk_match_def called_def example_session_def example_game_def)

subsection \<open>Every handler reads through the base query\<close>

text \<open>
  C7. The base query is \<open>Game\<close> left outer joined to \<open>Publisher\<close> on
  \<open>Game.publisher_id = Publisher.id\<close> and to \<open>Category\<close> on
  \<open>Game.category_id = Category.id\<close>: a joined row is a game with a matching publisher, or
  none when no publisher matches, and a matching category, or none when no category
  matches. So the games of the joined rows are exactly the game rows, dangling references
  included. The list handler answers with the games of this query, get by id with the
  first joined row of that id (200 whenever a game has the id), and whenever create or
  update answer with a game, it is the game of the first joined row of that id in the
  session they leave, the query being the last call on the session.
\<close>

theorem base_query_outer_joins:
  "(((g, p), c) \<in> set (get_games_base_query s) \<longleftrightarrow>
      g \<in> set (game_rows s) \<and>
      (case p of
         None \<Rightarrow> filter (\<lambda>r. pk_match (publisher_id g) (pub_id r)) (publisher_rows s) = []
       | Some r \<Rightarrow> r \<in> set (publisher_rows s) \<and> pk_match (publisher_id g) (pub_id r)) \<and>
      (case c of
         None \<Rightarrow> filter (\<lambda>r. pk_match (category_id g) (cat_id r)) (category_rows s) = []
       | Some r \<Rightarrow> r \<in> set (category_rows s) \<and> pk_match (category_id g) (cat_id r))) \<and>
   set (map (\<lambda>r. fst (fst r)) (get_games_base_query s)) = set (game_rows s) \<and>
   get_games s =
     ((Games_json (map (\<lambda>r. fst (fst r)) (get_games_base_query s)), 200),
      called Run_base_query s) \<and>
   get_game i s =
     ((case filter (\<lambda>r. game_id (fst (fst r)) = Some i) (get_games_base_query s) of
         [] \<Rightarrow> (Error_json ''Game not found'', 404)
       | r # rs \<Rightarrow> (Game_json (fst (fst r)), 200)),
      called Run_base_query s) \<and>
   (find (\<lambda>g. game_id g = Some i) (game_rows s) = Some g \<longrightarrow>
      fst (get_game i s) = (Game_json g, 200)) \<and>
   (fst (create_game V req s) = (Game_json g', st) \<longrightarrow>
      st = 201 \<and> last (trace (snd (create_game V req s))) = Run_base_query \<and>
      (\<exists>j r rs. filter (\<lambda>r. game_id (fst (fst r)) = Some j)
                    (get_games_base_query (snd (create_game V req s))) = r # rs \<and>
                fst (fst r) = g')) \<and>
   (fst (update_game V i req s) = (Game_json g', st) \<longrightarrow>
      st = 200 \<and> last (trace (snd (update_game V i req s))) = Run_base_query \<and>
      (\<exists>r rs. filter (\<lambda>r. game_id (fst (fst r)) = Some i)
                  (get_games_base_query (snd (update_game V i req s))) = r # rs \<and>
              fst (fst r) = g'))"
proof -
  have rows: "((g, p), c) \<in> set (get_games_base_query s) \<longleftrightarrow>
      g \<in> set (game_rows s) \<and>
      (case p of
         None \<Rightarrow> filter (\<lambda>r. pk_match (publisher_id g) (pub_id r)) (publisher_rows s) = []
       | Some r \<Rightarrow> r \<in> set (publisher_rows s) \<and> pk_match (publisher_id g) (pub_id r)) \<and>
      (case c of
         None \<Rightarrow> filter (\<lambda>r. pk_match (category_id g) (cat_id r)) (category_rows s) = []
       | Some r \<Rightarrow> r \<in> set (category_rows s) \<and> pk_match (category_id g) (cat_id r))"
    by (auto simp: get_games_base_query_def set_left_outer_join split: option.splits)
  have every: "set (map (\<lambda>r. fst (fst r)) (get_games_base_query s)) = set (game_rows s)"
    using set_query_all [of s] by (simp add: query_all_def)
  have list: "get_games s =
     ((Games_json (map (\<lambda>r. fst (fst r)) (get_games_base_query s)), 200),
      called Run_base_query s)"
    by (simp add: get_games_def query_all_def)
  have one: "get_game i s =
     ((case filter (\<lambda>r. game_id (fst (fst r)) = Some i) (get_games_base_query s) of
         [] \<Rightarrow> (Error_json ''Game not found'', 404)
       | r # rs \<Rightarrow> (Game_json (fst (fst r)), 200)),
      called Run_base_query s)"
    by (simp add: get_game_def query_filter_first_def split: list.splits)
  have found: "find (\<lambda>g. game_id g = Some i) (game_rows s) = Some g \<longrightarrow>
      fst (get_game i s) = (Game_json g, 200)"
    by (simp add: get_game_def query_filter_first_eq)
  have created: "fst (create_game V req s) = (Game_json g', st) \<longrightarrow>
      st = 201 \<and> last (trace (snd (create_game V req s))) = Run_base_query \<and>
      (\<exists>j r rs. filter (\<lambda>r. game_id (fst (fst r)) = Some j)
                    (get_games_base_query (snd (create_game V req s))) = r # rs \<and>
                fst (fst r) = g')"
    using create_game_response [of V req s g' st] first_joined_row by blast
  have updated: "fst (update_game V i req s) = (Game_json g', st) \<longrightarrow>
      st = 200 \<and> last (trace (snd (update_game V i req s))) = Run_base_query \<and>
      (\<exists>r rs. filter (\<lambda>r. game_id (fst (fst r)) = Some i)
                  (get_games_base_query (snd (update_game V i req s))) = r # rs \<and>
              fst (fst r) = g')"
    using update_game_response [of V i req s g' st] first_joined_row by blast
  from rows every list one found created updated show ?thesis
    by (intro conjI)
qed

theorem base_query_outer_joins_witness:
  "((example_game, Some \<lparr>pub_id = Some 1\<rparr>), None) \<in> set (get_games_base_query example_session) \<and>
   filter (\<lambda>r. pk_match (category_id example_game) (cat_id r)) (category_rows example_session) = [] \<and>
   find (\<lambda>g. game_id g = Some 1) (game_rows example_session) = Some example_game \<and>
   fst (get_game 1 example_session) = (Game_json example_game, 200) \<and>
   fst (create_game no_validators
     (Parsed (PyDict [(''title'', PyStr ''X''), (''description'', PyStr ''YYYYYYYYYY''),
                      (''publisher_id'', PyInt 1), (''category_id'', PyInt 7)]))
     (example_session\<lparr>category_rows := [example_category]\<rparr>)) =
     (Game_json \<lparr>game_id = Some 2, title = PyStr ''X'', description = PyStr ''YYYYYYYYYY'',
                 star_rating = PyNone, publisher_id = PyInt 1, category_id = PyInt 7\<rparr>, 201) \<and>
   last (trace (snd (create_game no_validators
     (Parsed (PyDict [(''title'', PyStr ''X''), (''description'', PyStr ''YYYYYYYYYY''),
                      (''publisher_id'', PyInt 1), (''category_id'', PyInt 7)]))
     (example_session\<lparr>category_rows := [example_category]\<rparr>)))) = Run_base_query \<and>
   fst (update_game no_validators 1 (Parsed (PyDict [(''title'', PyStr ''New title'')]))
     example_session) =
     (Game_json (example_game\<lparr>title := PyStr ''New title''\<rparr>), 200) \<and>
   last (trace (snd (update_game no_validators 1 (Parsed (PyDict [(''title'', PyStr ''New title'')]))
     example_session))) = Run_base_query"
proof -
  have rows: "game_rows example_session = [example_game]"
    "publisher_rows example_session = [\<lparr>pub_id = Some 1\<rparr>]"
    "category_rows example_session = []"
    by (simp_all add: example_session_def)
  have cols: "game_id example_game = Some 1" "pk_match (publisher_id example_game) (Some 1)"
    by (simp_all add: example_game_def pk_match_def)
  have upd: "fst (update_game no_validators 1 (Parsed (PyDict [(''title'', PyStr ''New title'')]))
     example_session) =
     (Game_json (example_game\<lparr>title := PyStr ''New title''\<rparr>), 200)"
    by (simp add: update_game_def handle_def update_game_try_def stmt_defs
      no_data_def Game_query_get_def update_attr_def update_publisher_id_def
      update_category_id_def py_in_def py_getitem_def Game_setattr_def store_attr_def
      no_validators_def session_commit_def called_def query_filter_first_eq
      example_session_def example_game_def)
  have crt: "fst (create_game no_validators
     (Parsed (PyDict [(''title'', PyStr ''X''), (''description'', PyStr ''YYYYYYYYYY''),
                      (''publisher_id'', PyInt 1), (''category_id'', PyInt 7)]))
     (example_session\<lparr>category_rows := [example_category]\<rparr>)) =
     (Game_json \<lparr>game_id = Some 2, title = PyStr ''X'', description = PyStr ''YYYYYYYYYY'',
                 star_rating = PyNone, publisher_id = PyInt 1, category_id = PyInt 7\<rparr>, 201)"
    by (simp add: create_game_def handle_def create_game_try_def stmt_defs
      no_data_def required_fields_def py_in_def py_getitem_def py_get_def
      Publisher_query_get_def Category_query_get_def pk_match_def Game_init_def
      store_attr_def new_game_def no_validators_def session_add_def max_id_def
      session_commit_def called_def query_filter_first_eq
      example_session_def example_game_def example_category_def)
  note T1 = base_query_outer_joins [where s = example_session and g = example_game
        and p = "Some \<lparr>pub_id = Some 1\<rparr>" and c = None and i = 1 and V = no_validators
        and req = "Parsed (PyDict [(''title'', PyStr ''New title'')])"
        and g' = "example_game\<lparr>title := PyStr ''New title''\<rparr>" and st = 200]
  note T2 = base_query_outer_joins [where s = "example_session\<lparr>category_rows := [example_category]\<rparr>"
        and g = example_game and p = None and c = None and i = 1
        and V = no_validators
        and req = "Parsed (PyDict [(''title'', PyStr ''X''), (''description'', PyStr ''YYYYYYYYYY''),
                        (''publisher_id'', PyInt 1), (''category_id'', PyInt 7)])"
        and g' = "\<lparr>game_id = Some 2, title = PyStr ''X'', description = PyStr ''YYYYYYYYYY'',
                   star_rating = PyNone, publisher_id = PyInt 1, category_id = PyInt 7\<rparr>"
        and st = 201]
  have 1: "((example_game, Some \<lparr>pub_id = Some 1\<rparr>), None) \<in> set (get_games_base_query example_session)"
    using T1 by (simp add: rows cols)
  have found: "find (\<lambda>g. game_id g = Some 1) (game_rows example_session) = Some example_game"
    by (simp add: rows cols)
  have 2: "fst (get_game 1 example_session) = (Game_json example_game, 200)"
    using T1 found by blast
  have 3: "last (trace (snd (create_game no_validators
     (Parsed (PyDict [(''title'', PyStr ''X''), (''description'', PyStr ''YYYYYYYYYY''),
                      (''publisher_id'', PyInt 1), (''category_id'', PyInt 7)]))
     (example_session\<lparr>category_rows := [example_category]\<rparr>)))) = Run_base_query"
    using T2 crt by blast
  have 4: "last (trace (snd (update_game no_validators 1 (Parsed (PyDict [(''title'', PyStr ''New title'')]))
     example_session))) = Run_base_query"
    using T1 upd by blast
  show ?thesis
    using 1 2 3 4 upd crt found by (simp add: rows cols)
qed

end
